theory Spec2Isabelle
  imports Complex_Main "HOL-Library.Word" "HOL-Library.Signed_Division"
begin

section \<open>The pose-processing core of opentrack (\<^verbatim>\<open>opentrack/tracker.cpp\<close>)\<close>

text \<open>
  A shallow embedding of \<^verbatim>\<open>Tracker::map\<close>, \<^verbatim>\<open>euler_to_rmat\<close>,
  \<^verbatim>\<open>Tracker::t_compensate\<close>, \<^verbatim>\<open>Tracker::logic\<close> and \<^verbatim>\<open>Tracker::run\<close>.

  Conventions of the embedding:
  \<^item> a \<^verbatim>\<open>double\<close> is a \<^typ>\<open>real\<close>: rounding is not modelled, and the properties
    below are about which value reaches which place, not about numerical accuracy;
  \<^item> an array of doubles (\<^verbatim>\<open>double[6]\<close>, \<^verbatim>\<open>double[3]\<close>, a \<^verbatim>\<open>Pose\<close>) is a function from
    the index to the value; the source only ever reads and writes indices inside the array;
  \<^item> a \<^verbatim>\<open>for (int i = 0; i < n; i++)\<close> loop is a \<^const>\<open>fold\<close> over \<^term>\<open>[0..<n]\<close>;
  \<^item> a member function that mutates the object takes the object and returns the new one.
\<close>

subsection \<open>Data\<close>

type_synonym darray = "nat \<Rightarrow> real"

text \<open>
  Modelled from the spec: the class \<^verbatim>\<open>Pose\<close> and the enumeration of its axes are declared in a
  header that is not part of the source file. The spec fixes a pose as six doubles with
  yaw, pitch and roll at the indices 3, 4 and 5, and the default-constructed pose
  as the all-zero pose.
\<close>

type_synonym Pose = darray

definition Pose0 :: Pose where
  "Pose0 = (\<lambda>i. 0)"

definition Yaw :: nat where "Yaw = 3"
definition Pitch :: nat where "Pitch = 4"
definition Roll :: nat where "Roll = 5"

text \<open>
  Modelled from the spec: the curve class behind \<^verbatim>\<open>axis.curve\<close> and \<^verbatim>\<open>axis.curveAlt\<close> is
  not part of the source file. The spec gives it the contract \<^verbatim>\<open>evaluate(value) -> value\<close>
  and \<^verbatim>\<open>setActive(bool)\<close>: a curve is its evaluation function and its activation flag.
\<close>

record Map_curve =
  tracking_active :: bool
  getValue :: "real \<Rightarrow> real"

definition setTrackingActive :: "bool \<Rightarrow> Map_curve \<Rightarrow> Map_curve" where
  "setTrackingActive b c = c\<lparr>tracking_active := b\<rparr>"

record axis_opts =
  invert :: bool
  altp :: bool
  zero :: real
  src :: int

record Mapping =
  opts :: axis_opts
  curve :: Map_curve
  curveAlt :: Map_curve

record main_settings =
  tcomp_p :: bool
  tcomp_tz :: bool

subsection \<open>\<^verbatim>\<open>Tracker::map\<close> (lines 41 to 48)\<close>

text \<open>
  The function returns the mapped value and, as \<^verbatim>\<open>axis\<close> is passed by reference, the axis
  with the activation flags of its two curves rewritten. In C++ \<^verbatim>\<open>==\<close> binds tighter than
  \<^verbatim>\<open>&&\<close>.
\<close>

definition map_axis :: "real \<Rightarrow> bool \<Rightarrow> Mapping \<Rightarrow> real \<times> Mapping" where
  "map_axis pos invertp axis =
     (let altp' = (((pos < 0) = (\<not> invertp)) \<and> altp (opts axis));
          axis = axis\<lparr>curve := setTrackingActive (\<not> altp') (curve axis)\<rparr>;
          axis = axis\<lparr>curveAlt := setTrackingActive altp' (curveAlt axis)\<rparr>;
          fc = (if altp' then curveAlt axis else curve axis)
      in (getValue fc pos + zero (opts axis), axis))"

subsection \<open>\<^verbatim>\<open>euler_to_rmat\<close> (lines 51 to 73)\<close>

text \<open>
  Modelled from the spec: the template \<^verbatim>\<open>dmat\<close> is declared in a header that is not part of
  the source file. A \<^verbatim>\<open>dmat<3, 3>\<close> is a 3 by 3 matrix of doubles, built from an array in
  row-major order; a \<^verbatim>\<open>dmat<3, 1>\<close> is a column of three doubles; \<^verbatim>\<open>*\<close> is the matrix
  product.
\<close>

type_synonym dmat33 = "nat \<Rightarrow> nat \<Rightarrow> real"

definition dmat33_of :: "darray \<Rightarrow> dmat33" where
  "dmat33_of mem = (\<lambda>r c. mem (r * 3 + c))"

definition dmat_mul :: "dmat33 \<Rightarrow> darray \<Rightarrow> darray" where
  "dmat_mul A v = (\<lambda>r. A r 0 * v 0 + A r 1 * v 1 + A r 2 * v 2)"

definition array_of :: "real list \<Rightarrow> darray" where
  "array_of xs = (\<lambda>i. if i < length xs then xs ! i else 0)"

definition pi' :: real where
  "pi' = 3.141592653"

definition euler_to_rmat :: "darray \<Rightarrow> dmat33" where
  "euler_to_rmat input =
     (let H = input 1 * pi' / 180;
          P = input 0 * pi' / 180;
          B = input 2 * pi' / 180;
          c1 = cos H; s1 = sin H;
          c2 = cos P; s2 = sin P;
          c3 = cos B; s3 = sin B;
          foo = array_of
            [c2*c3,           -c2*s3,          s2,
             c1*s3+c3*s1*s2,  c1*c3-s1*s2*s3,  -c2*s1,
             s1*s3-c1*c3*s2,  c3*s1+c1*s2*s3,  c1*c2]
      in dmat33_of foo)"

subsection \<open>\<^verbatim>\<open>Tracker::t_compensate\<close> (lines 75 to 87)\<close>

definition p_x :: nat where "p_x = 0"
definition p_y :: nat where "p_y = 1"
definition p_z :: nat where "p_z = 2"

text \<open>The result is the array \<^verbatim>\<open>output\<close> after the call.\<close>

definition t_compensate :: "dmat33 \<Rightarrow> darray \<Rightarrow> darray \<Rightarrow> bool \<Rightarrow> darray" where
  "t_compensate rmat xyz output rz =
     (let xyz' = array_of [- xyz p_x, - xyz p_y, xyz p_z];
          ret = dmat_mul rmat xyz';
          output = output(0 := - ret p_x);
          output = output(1 := - ret p_y)
      in if \<not> rz then output(2 := ret p_z) else output(2 := xyz 2))"

subsection \<open>The tracker object\<close>

text \<open>
  Modelled from the spec: the class \<^verbatim>\<open>Quat\<close> is declared in a header that is not part of
  the source file, so its operations are parameters of the pipeline. The spec names them
  \<^verbatim>\<open>fromEulerRadians\<close>, \<^verbatim>\<open>inverse\<close>, \<^verbatim>\<open>compose\<close> and \<^verbatim>\<open>toEulerDegrees\<close>, and builds the
  quaternion of line 136 with \<^verbatim>\<open>fromEulerRadians\<close> as well. \<^verbatim>\<open>to_euler_degrees\<close> writes
  three doubles through references; here it returns them.
\<close>

record 'q Quat_ops =
  from_euler_rads :: "real \<Rightarrow> real \<Rightarrow> real \<Rightarrow> 'q"
  quat_inv :: "'q \<Rightarrow> 'q"
  quat_mul :: "'q \<Rightarrow> 'q \<Rightarrow> 'q"
  to_euler_degrees :: "'q \<Rightarrow> real \<times> real \<times> real"

text \<open>
  Modelled from the spec: the filter behind \<^verbatim>\<open>libs.pFilter\<close> is an external capability
  \<^verbatim>\<open>apply(inputPose[6]) -> outputPose[6]\<close> that may keep state between calls: a filter is
  its state and its step function.
\<close>

record 'f IFilter =
  filter_state :: 'f
  filter_fn :: "'f \<Rightarrow> Pose \<Rightarrow> Pose \<times> 'f"

text \<open>
  The members of \<^verbatim>\<open>Tracker\<close> that \<^verbatim>\<open>logic\<close> and \<^verbatim>\<open>run\<close> touch. The protocol object behind
  \<^verbatim>\<open>libs.pProtocol\<close> is the list of the poses it has been sent, oldest first; \<^verbatim>\<open>slept\<close> is
  the list of the arguments \<^verbatim>\<open>usleep\<close> has been called with. The mutex only orders the two
  last assignments of \<^verbatim>\<open>logic\<close> against readers on other threads and is left out.
\<close>

type_synonym long = "64 word"

record ('q, 'f) Tracker =
  s :: main_settings
  m :: "nat \<Rightarrow> Mapping"
  centerp :: bool
  enabledp :: bool
  pFilter :: "'f IFilter option"
  pProtocol :: "Pose list"
  t_b :: darray
  q_b :: 'q
  newpose :: darray
  final_raw :: Pose
  output_pose :: Pose
  raw_6dof :: Pose
  slept :: "long list"

subsection \<open>\<^verbatim>\<open>Tracker::logic\<close> (lines 89 to 174)\<close>

text \<open>Lines 91 to 93: the raw-pose buffer after the acquisition step.\<close>

definition logic_final_raw :: "('q, 'f) Tracker \<Rightarrow> Pose" where
  "logic_final_raw st =
     (if enabledp st
      then fold (\<lambda>i fr. fr(i := newpose st i)) [0..<6] (final_raw st)
      else final_raw st)"

text \<open>Lines 95 to 100: the output of the filter, and the filter after the call.\<close>

definition logic_filter :: "('q, 'f) Tracker \<Rightarrow> Pose \<times> 'f IFilter option" where
  "logic_filter st =
     (case pFilter st of
        Some f \<Rightarrow>
          (let (filtered_pose, fs) = filter_fn f (filter_state f) (logic_final_raw st)
           in (filtered_pose, Some (f\<lparr>filter_state := fs\<rparr>)))
      | None \<Rightarrow> (logic_final_raw st, None))"

text \<open>Lines 102 to 109.\<close>

definition inverts :: "('q, 'f) Tracker \<Rightarrow> nat \<Rightarrow> bool" where
  "inverts st = (\<lambda>i. invert (opts (m st i)))"

text \<open>Lines 112 and 113: \<^verbatim>\<open>filtered_pose\<close> after the inversion loop.\<close>

definition logic_filtered_pose :: "('q, 'f) Tracker \<Rightarrow> Pose" where
  "logic_filtered_pose st =
     fold (\<lambda>i fp. fp(i := fp i * (if inverts st i then -1 else 1))) [0..<6]
       (fst (logic_filter st))"

definition d2r :: real where
  "d2r = pi' / 180"

text \<open>Lines 118 to 121: \<^verbatim>\<open>mapped_pose\<close>, and the mappings after the six calls of \<^verbatim>\<open>map\<close>.\<close>

definition logic_map :: "('q, 'f) Tracker \<Rightarrow> Pose \<times> (nat \<Rightarrow> Mapping)" where
  "logic_map st =
     fold (\<lambda>i (mapped_pose, ms).
             let (v, axis) = map_axis (logic_filtered_pose st i) (inverts st i) (ms i)
             in (mapped_pose(i := v), ms(i := axis)))
       [0..<6] (Pose0, m st)"

definition logic_mapped_pose :: "('q, 'f) Tracker \<Rightarrow> Pose" where
  "logic_mapped_pose st = fst (logic_map st)"

text \<open>Lines 123 to 131: \<^verbatim>\<open>centerp\<close>, \<^verbatim>\<open>t_b\<close> and \<^verbatim>\<open>q_b\<close> after the capture step.\<close>

definition logic_center :: "'q Quat_ops \<Rightarrow> ('q, 'f) Tracker \<Rightarrow> bool \<times> darray \<times> 'q" where
  "logic_center Q st =
     (let filtered_pose = logic_filtered_pose st;
          mapped_pose = logic_mapped_pose st
      in if centerp st
         then (False,
               fold (\<lambda>i tb. tb(i := filtered_pose i)) [0..<3] (t_b st),
               from_euler_rads Q (mapped_pose Yaw * d2r)
                                 (mapped_pose Pitch * d2r)
                                 (mapped_pose Roll * d2r))
         else (centerp st, t_b st, q_b st))"

text \<open>Lines 133 to 147: the pose \<^verbatim>\<open>centered\<close>.\<close>

definition logic_centered :: "'q Quat_ops \<Rightarrow> ('q, 'f) Tracker \<Rightarrow> Pose" where
  "logic_centered Q st =
     (let mapped_pose = logic_mapped_pose st;
          (cp, tb, qb) = logic_center Q st;
          q = from_euler_rads Q (mapped_pose Yaw * d2r)
                                (mapped_pose Pitch * d2r)
                                (mapped_pose Roll * d2r);
          q' = quat_mul Q q (quat_inv Q qb);
          (y, p, r) = to_euler_degrees Q q';
          ypr = array_of [y, p, r]
      in fold (\<lambda>i centered. (centered(i := mapped_pose i - tb i))(i + 3 := ypr i))
           [0..<3] Pose0)"

text \<open>
  Lines 149 to 155: the pose \<^verbatim>\<open>centered_\<close>. \<^verbatim>\<open>&centered[Yaw]\<close> is the array of the three
  rotation components of \<^verbatim>\<open>centered\<close>.
\<close>

definition logic_centered' :: "'q Quat_ops \<Rightarrow> ('q, 'f) Tracker \<Rightarrow> Pose" where
  "logic_centered' Q st =
     (let centered = logic_centered Q st;
          centered' = centered
      in if tcomp_p (s st)
         then t_compensate (euler_to_rmat (\<lambda>j. centered (Yaw + j)))
                centered centered' (tcomp_tz (s st))
         else centered')"

text \<open>Lines 157 to 167: the pose \<^verbatim>\<open>mapped\<close>.\<close>

definition logic_mapped :: "'q Quat_ops \<Rightarrow> ('q, 'f) Tracker \<Rightarrow> Pose" where
  "logic_mapped Q st =
     (let centered' = logic_centered' Q st
      in fold (\<lambda>i mapped.
                 let axis = snd (logic_map st) i;
                     k = src (opts axis)
                 in if k < 0 \<or> k \<ge> 6 then mapped(i := 0)
                    else mapped(i := centered' i))
           [0..<6] Pose0)"

text \<open>The whole pass: the tracker after \<^verbatim>\<open>logic()\<close> has returned.\<close>

definition logic :: "'q Quat_ops \<Rightarrow> ('q, 'f) Tracker \<Rightarrow> ('q, 'f) Tracker" where
  "logic Q st =
     (let (cp, tb, qb) = logic_center Q st;
          mapped = logic_mapped Q st
      in st\<lparr>final_raw := logic_final_raw st,
            pFilter := snd (logic_filter st),
            m := snd (logic_map st),
            centerp := cp, t_b := tb, q_b := qb,
            pProtocol := pProtocol st @ [mapped],
            output_pose := mapped,
            raw_6dof := logic_final_raw st\<rparr>)"

subsection \<open>\<^verbatim>\<open>Tracker::run\<close> (lines 176 to 213)\<close>

text \<open>
  \<^verbatim>\<open>long\<close> is a 64-bit two's complement integer; \<^verbatim>\<open>/\<close> truncates towards zero;
  \<^verbatim>\<open>std::max(a, b)\<close> is \<^verbatim>\<open>b\<close> when \<^verbatim>\<open>a < b\<close> and \<^verbatim>\<open>a\<close> otherwise.
\<close>

definition long_div :: "long \<Rightarrow> long \<Rightarrow> long" where
  "long_div a b = word_of_int (sint a sdiv sint b)"

definition long_max :: "long \<Rightarrow> long \<Rightarrow> long" where
  "long_max a b = (if sint a < sint b then b else a)"

definition sleep_ms :: long where
  "sleep_ms = 3"

text \<open>Lines 190 and 191: the argument of \<^verbatim>\<open>usleep\<close>, from the value of \<^verbatim>\<open>t.elapsed()\<close>.\<close>

definition usleep_arg :: "long \<Rightarrow> long" where
  "usleep_arg elapsed =
     (let q = sleep_ms * 1000 - long_div elapsed 1000
      in long_max 1 q)"

text \<open>
  Lines 185 to 191, one iteration of the loop: \<^verbatim>\<open>data\<close> is what the device does to
  \<^verbatim>\<open>newpose\<close> in \<^verbatim>\<open>libs.pTracker->data(newpose)\<close>, \<^verbatim>\<open>elapsed\<close> what \<^verbatim>\<open>t.elapsed()\<close> returns.
\<close>

definition iteration ::
  "'q Quat_ops \<Rightarrow> ('q, 'f) Tracker \<Rightarrow> (darray \<Rightarrow> darray) \<Rightarrow> long \<Rightarrow> ('q, 'f) Tracker" where
  "iteration Q st data elapsed =
     (let st = st\<lparr>newpose := data (newpose st)\<rparr>;
          st = logic Q st
      in st\<lparr>slept := slept st @ [usleep_arg elapsed]\<rparr>)"

text \<open>Lines 194 to 212: what \<^verbatim>\<open>run\<close> does once the loop has ended.\<close>

definition run_shutdown :: "'q Quat_ops \<Rightarrow> ('q, 'f) Tracker \<Rightarrow> ('q, 'f) Tracker" where
  "run_shutdown Q st =
     (let st = st\<lparr>newpose := fold (\<lambda>i np. np(i := 0)) [0..<6] (newpose st)\<rparr>;
          st = logic Q st;
          p = Pose0;
          st = st\<lparr>pProtocol := pProtocol st @ [p]\<rparr>
      in st\<lparr>m := fold (\<lambda>i ms. ms(i := (ms i)
                   \<lparr>curve := setTrackingActive False (curve (ms i)),
                    curveAlt := setTrackingActive False (curveAlt (ms i))\<rparr>))
                [0..<6] (m st)\<rparr>)"

text \<open>
  The flag \<^verbatim>\<open>should_quit\<close> is set by another thread, and the device and the clock are
  outside the program: the run is driven by what the loop observes, in order. \<open>Quit\<close> is a
  test of \<^verbatim>\<open>should_quit\<close> that finds it set; \<open>Sample data elapsed\<close> is a test that finds
  it clear, followed by an iteration with these answers of the device and of the timer.
  When the observations end before a \<open>Quit\<close>, the loop is still running and \<open>run\<close> has
  not returned: the result is \<open>None\<close>.
\<close>

datatype observation = Quit | Sample "darray \<Rightarrow> darray" long

fun run :: "'q Quat_ops \<Rightarrow> ('q, 'f) Tracker \<Rightarrow> observation list \<Rightarrow> ('q, 'f) Tracker option" where
  "run Q st [] = None"
| "run Q st (Quit # rest) = Some (run_shutdown Q st)"
| "run Q st (Sample data elapsed # rest) = run Q (iteration Q st data elapsed) rest"

text \<open>The tracker at the end of the loop, after the iterations given by their observations.\<close>

definition loop_passes ::
  "'q Quat_ops \<Rightarrow> ('q, 'f) Tracker \<Rightarrow> ((darray \<Rightarrow> darray) \<times> long) list \<Rightarrow> ('q, 'f) Tracker" where
  "loop_passes Q st xs = fold (\<lambda>(data, elapsed) st. iteration Q st data elapsed) xs st"

subsection \<open>The constructor (lines 24 to 33) and concrete trackers\<close>

text \<open>
  The constructor clears \<^verbatim>\<open>centerp\<close>, sets \<^verbatim>\<open>enabledp\<close> and zeroes \<^verbatim>\<open>t_b\<close>. \<^verbatim>\<open>q0\<close> is the
  default-constructed \<^verbatim>\<open>Quat\<close> and \<^verbatim>\<open>np0\<close> the content of \<^verbatim>\<open>newpose\<close>, which the
  constructor does not initialise.
\<close>

definition Tracker_new ::
  "main_settings \<Rightarrow> (nat \<Rightarrow> Mapping) \<Rightarrow> 'f IFilter option \<Rightarrow> 'q \<Rightarrow> darray \<Rightarrow> ('q, 'f) Tracker" where
  "Tracker_new s0 m0 flt q0 np0 =
     \<lparr>s = s0, m = m0, centerp = False, enabledp = True, pFilter = flt, pProtocol = [],
      t_b = array_of [0, 0, 0], q_b = q0, newpose = np0, final_raw = Pose0,
      output_pose = Pose0, raw_6dof = Pose0, slept = []\<rparr>"

text \<open>
  A stand-in for the quaternion class, used only to run the pipeline on concrete inputs:
  an orientation is kept as its three angles in radians. Every theorem below holds for
  all implementations of the four operations.
\<close>

definition angle_quat :: "(real \<times> real \<times> real) Quat_ops" where
  "angle_quat =
     \<lparr>from_euler_rads = (\<lambda>y p r. (y, p, r)),
      quat_inv = (\<lambda>(y, p, r). (- y, - p, - r)),
      quat_mul = (\<lambda>(y, p, r) (y', p', r'). (y + y', p + p', r + r')),
      to_euler_degrees = (\<lambda>(y, p, r). (y / d2r, p / d2r, r / d2r))\<rparr>"

definition linear_curve :: "real \<Rightarrow> Map_curve" where
  "linear_curve k = \<lparr>tracking_active = False, getValue = (\<lambda>x. k * x)\<rparr>"

text \<open>An axis whose primary curve is the identity and whose alternate curve doubles.\<close>

definition example_axis :: "bool \<Rightarrow> bool \<Rightarrow> real \<Rightarrow> int \<Rightarrow> Mapping" where
  "example_axis invp alt z k =
     \<lparr>opts = \<lparr>invert = invp, altp = alt, zero = z, src = k\<rparr>,
      curve = linear_curve 1, curveAlt = linear_curve 2\<rparr>"

text \<open>
  A freshly constructed tracker without filter, with compensation off, identity curves,
  \<^verbatim>\<open>src = i\<close> on every axis \<^verbatim>\<open>i\<close>, and the device sample (1, 2, 3, 10, 20, 30) in
  \<^verbatim>\<open>newpose\<close>.
\<close>

definition example_tracker :: "(real \<times> real \<times> real, unit) Tracker" where
  "example_tracker =
     Tracker_new \<lparr>tcomp_p = False, tcomp_tz = False\<rparr>
       (\<lambda>i. example_axis False False 0 (int i)) None (0, 0, 0)
       (array_of [1, 2, 3, 10, 20, 30])"

section \<open>Auxiliary facts\<close>

subsection \<open>Loops over an index range\<close>

lemma fold_upt_pointwise:
  assumes "\<And>i f. F i f = f(i := h i (f i))"
  shows "fold F [0..<n] f0 = (\<lambda>i. if i < n then h i (f0 i) else f0 i)"
  by (induction n) (auto simp add: assms fun_eq_iff)

lemma fold_upt_const:
  "fold (\<lambda>i f. f(i := g i)) [0..<n] f0 = (\<lambda>i. if i < n then g i else f0 i)"
  using fold_upt_pointwise [where F = "\<lambda>i f. f(i := g i)" and h = "\<lambda>i _. g i"] by simp

lemma fold_upt_pair:
  assumes "\<And>i a b. F i (a, b) = (a(i := fst (h i (b i))), b(i := snd (h i (b i))))"
  shows "fold F [0..<n] (a0, b0) =
     ((\<lambda>i. if i < n then fst (h i (b0 i)) else a0 i),
      (\<lambda>i. if i < n then snd (h i (b0 i)) else b0 i))"
  by (induction n) (auto simp add: assms fun_eq_iff)

lemma fold_upt_two:
  "n \<le> k \<Longrightarrow>
   fold (\<lambda>i c. (c(i := a i))(i + k := b i)) [0..<n] c0 =
     (\<lambda>j. if j < n then a j else if k \<le> j \<and> j < k + n then b (j - k) else c0 j)"
  by (induction n) (auto simp add: fun_eq_iff)

subsection \<open>The stages of a pass, index by index\<close>

lemma logic_final_raw_nth:
  "logic_final_raw st i = (if enabledp st \<and> i < 6 then newpose st i else final_raw st i)"
  by (simp add: logic_final_raw_def fold_upt_const)

lemma logic_filtered_pose_nth:
  "logic_filtered_pose st i =
     (if i < 6 then fst (logic_filter st) i * (if inverts st i then -1 else 1)
      else fst (logic_filter st) i)"
  unfolding logic_filtered_pose_def
  by (subst fold_upt_pointwise [where h = "\<lambda>i x. x * (if inverts st i then -1 else 1)"])
    simp_all

lemma logic_map_eq:
  "logic_map st =
    ((\<lambda>i. if i < 6
          then fst (map_axis (logic_filtered_pose st i) (inverts st i) (m st i)) else 0),
     (\<lambda>i. if i < 6
          then snd (map_axis (logic_filtered_pose st i) (inverts st i) (m st i))
          else m st i))"
  unfolding logic_map_def Pose0_def
  by (rule fold_upt_pair) (simp add: split_beta)

lemma opts_map_axis: "opts (snd (map_axis pos invp axis)) = opts axis"
  by (simp add: map_axis_def Let_def)

lemma map_axis_active:
  "tracking_active (curve (snd (map_axis pos invertp axis))) =
     (\<not> (((pos < 0) = (\<not> invertp)) \<and> altp (opts axis)))"
  "tracking_active (curveAlt (snd (map_axis pos invertp axis))) =
     (((pos < 0) = (\<not> invertp)) \<and> altp (opts axis))"
  by (simp_all add: map_axis_def Let_def setTrackingActive_def)

lemma logic_center_keeps:
  "\<not> centerp st \<Longrightarrow> logic_center Q st = (False, t_b st, q_b st)"
  by (simp add: logic_center_def Let_def)

lemma logic_center_captures:
  "centerp st \<Longrightarrow> logic_center Q st =
     (False, (\<lambda>i. if i < 3 then logic_filtered_pose st i else t_b st i),
      from_euler_rads Q (logic_mapped_pose st Yaw * d2r)
                        (logic_mapped_pose st Pitch * d2r)
                        (logic_mapped_pose st Roll * d2r))"
  by (simp add: logic_center_def Let_def fold_upt_const)

lemma logic_centered_nth:
  "logic_centered Q st i =
     (if i < 3 then logic_mapped_pose st i - fst (snd (logic_center Q st)) i
      else if i < 6 then
        array_of
          [fst (to_euler_degrees Q (quat_mul Q
             (from_euler_rads Q (logic_mapped_pose st Yaw * d2r)
                (logic_mapped_pose st Pitch * d2r) (logic_mapped_pose st Roll * d2r))
             (quat_inv Q (snd (snd (logic_center Q st)))))),
           fst (snd (to_euler_degrees Q (quat_mul Q
             (from_euler_rads Q (logic_mapped_pose st Yaw * d2r)
                (logic_mapped_pose st Pitch * d2r) (logic_mapped_pose st Roll * d2r))
             (quat_inv Q (snd (snd (logic_center Q st))))))),
           snd (snd (to_euler_degrees Q (quat_mul Q
             (from_euler_rads Q (logic_mapped_pose st Yaw * d2r)
                (logic_mapped_pose st Pitch * d2r) (logic_mapped_pose st Roll * d2r))
             (quat_inv Q (snd (snd (logic_center Q st)))))))] (i - 3)
      else 0)"
  unfolding logic_centered_def Let_def split_beta
  by (simp add: fold_upt_two Pose0_def)

text \<open>What the remap loop of lines 159 to 167 leaves at each index.\<close>

lemma logic_mapped_nth:
  "logic_mapped Q st i =
     (if i < 6
      then (if src (opts (m st i)) < 0 \<or> src (opts (m st i)) \<ge> 6 then 0
            else logic_centered' Q st i)
      else 0)"
proof -
  have "logic_mapped Q st =
     fold (\<lambda>i mapped. mapped(i :=
            (if src (opts (m st i)) < 0 \<or> src (opts (m st i)) \<ge> 6 then 0
             else logic_centered' Q st i))) [0..<6] Pose0"
    unfolding logic_mapped_def Let_def
    by (rule fold_cong) (auto simp add: logic_map_eq opts_map_axis)
  then show ?thesis
    by (simp add: fold_upt_const Pose0_def)
qed

lemma logic_fields:
  "final_raw (logic Q st) = logic_final_raw st"
  "raw_6dof (logic Q st) = logic_final_raw st"
  "output_pose (logic Q st) = logic_mapped Q st"
  "pProtocol (logic Q st) = pProtocol st @ [logic_mapped Q st]"
  "m (logic Q st) = snd (logic_map st)"
  "centerp (logic Q st) = fst (logic_center Q st)"
  "t_b (logic Q st) = fst (snd (logic_center Q st))"
  "q_b (logic Q st) = snd (snd (logic_center Q st))"
  "pFilter (logic Q st) = snd (logic_filter st)"
  "newpose (logic Q st) = newpose st"
  "s (logic Q st) = s st"
  "enabledp (logic Q st) = enabledp st"
  "slept (logic Q st) = slept st"
  by (simp_all add: logic_def Let_def split_beta)

text \<open>With acquisition off, a pass does not look at \<^verbatim>\<open>newpose\<close>.\<close>

lemma disabled_newpose_irrelevant:
  assumes "\<not> enabledp st"
  shows "logic_final_raw (st\<lparr>newpose := np\<rparr>) = final_raw st"
    and "logic_mapped Q (st\<lparr>newpose := np\<rparr>) = logic_mapped Q st"
proof -
  let ?st = "st\<lparr>newpose := np\<rparr>"
  show raw: "logic_final_raw ?st = final_raw st"
    using assms by (simp add: logic_final_raw_def)
  have raw': "logic_final_raw ?st = logic_final_raw st"
    using assms by (simp add: logic_final_raw_def)
  have flt: "logic_filter ?st = logic_filter st"
    by (simp add: logic_filter_def raw' split: option.split)
  have inv: "inverts ?st = inverts st"
    by (simp add: inverts_def)
  have fp: "logic_filtered_pose ?st = logic_filtered_pose st"
    by (simp add: logic_filtered_pose_def flt inv)
  have mp: "logic_map ?st = logic_map st"
    by (simp add: logic_map_def fp inv)
  have cen: "logic_center Q ?st = logic_center Q st"
    by (simp add: logic_center_def logic_mapped_pose_def fp mp Let_def)
  have ctd: "logic_centered Q ?st = logic_centered Q st"
    by (simp add: logic_centered_def logic_mapped_pose_def cen mp Let_def)
  have ctd': "logic_centered' Q ?st = logic_centered' Q st"
    by (simp add: logic_centered'_def ctd Let_def)
  show "logic_mapped Q ?st = logic_mapped Q st"
    by (simp add: logic_mapped_def ctd' mp Let_def)
qed

subsection \<open>The loop and the shutdown\<close>

lemma iteration_center_idle:
  "\<not> centerp st \<Longrightarrow>
     \<not> centerp (iteration Q st data elapsed) \<and>
     t_b (iteration Q st data elapsed) = t_b st \<and>
     q_b (iteration Q st data elapsed) = q_b st"
  by (simp add: iteration_def Let_def logic_fields logic_center_keeps)

lemma loop_passes_center_idle:
  "\<not> centerp st \<Longrightarrow>
     \<not> centerp (loop_passes Q st xs) \<and>
     t_b (loop_passes Q st xs) = t_b st \<and>
     q_b (loop_passes Q st xs) = q_b st"
proof (induction xs arbitrary: st)
  case Nil
  then show ?case by (simp add: loop_passes_def)
next
  case (Cons x xs)
  obtain data elapsed where x: "x = (data, elapsed)" by (cases x)
  have step: "loop_passes Q st (x # xs) = loop_passes Q (iteration Q st data elapsed) xs"
    by (simp add: loop_passes_def x)
  from Cons.prems have idle: "\<not> centerp (iteration Q st data elapsed)"
    and keep: "t_b (iteration Q st data elapsed) = t_b st"
      "q_b (iteration Q st data elapsed) = q_b st"
    using iteration_center_idle [of st Q data elapsed] by simp_all
  from Cons.IH [OF idle] show ?case
    by (simp add: step keep)
qed

lemma run_shutdown_fields:
  "pProtocol (run_shutdown Q st) =
     pProtocol st @
       [logic_mapped Q (st\<lparr>newpose := (\<lambda>i. if i < 6 then 0 else newpose st i)\<rparr>), Pose0]"
  "final_raw (run_shutdown Q st) =
     logic_final_raw (st\<lparr>newpose := (\<lambda>i. if i < 6 then 0 else newpose st i)\<rparr>)"
  "raw_6dof (run_shutdown Q st) =
     logic_final_raw (st\<lparr>newpose := (\<lambda>i. if i < 6 then 0 else newpose st i)\<rparr>)"
  "newpose (run_shutdown Q st) = (\<lambda>i. if i < 6 then 0 else newpose st i)"
  by (simp_all add: run_shutdown_def Let_def logic_fields fold_upt_const)

lemma run_reaches_shutdown:
  "run Q st (map (\<lambda>(data, elapsed). Sample data elapsed) xs @ Quit # rest) =
     Some (run_shutdown Q (loop_passes Q st xs))"
proof (induction xs arbitrary: st)
  case Nil
  show ?case by (simp add: loop_passes_def)
next
  case (Cons x xs)
  obtain data elapsed where x: "x = (data, elapsed)" by (cases x)
  show ?case
    using Cons.IH [of "iteration Q st data elapsed"]
    by (simp add: x loop_passes_def)
qed

subsection \<open>The arithmetic of the sleep argument\<close>

lemma sdiv_1000_bounds:
  fixes x :: int
  assumes "- (2 ^ 63) \<le> x" "x < 2 ^ 63"
  shows "- 9223372036854776 \<le> x sdiv 1000" "x sdiv 1000 \<le> 9223372036854776"
  using assms by (auto simp add: signed_divide_int_def sgn_if abs_if)

lemma sint_long_range: "- (2 ^ 63) \<le> sint (x :: long)" "sint (x :: long) < 2 ^ 63"
  using sint_ge [of x] sint_lt [of x] by simp_all

lemma sint_long_div_1000: "sint (long_div e 1000) = sint e sdiv 1000"
proof -
  have "- (2 ^ 63) \<le> sint e sdiv 1000" "sint e sdiv 1000 < 2 ^ 63"
    using sdiv_1000_bounds [OF sint_long_range [of e]] by simp_all
  then show ?thesis
    by (simp add: long_div_def sint_sbintrunc' signed_take_bit_int_eq_self)
qed

lemma sint_usleep_q:
  "sint (sleep_ms * 1000 - long_div e 1000) = 3000 - sint e sdiv 1000"
proof -
  have "- (2 ^ 63) \<le> 3000 - sint e sdiv 1000" "3000 - sint e sdiv 1000 < 2 ^ 63"
    using sdiv_1000_bounds [OF sint_long_range [of e]] by simp_all
  then show ?thesis
    by (simp add: sleep_ms_def sint_word_diff sint_long_div_1000 signed_take_bit_int_eq_self)
qed

lemma sint_usleep_arg: "sint (usleep_arg e) = max 1 (3000 - sint e sdiv 1000)"
  by (simp add: usleep_arg_def Let_def long_max_def sint_usleep_q max_def)

subsection \<open>Unfolding a pass on a concrete tracker\<close>

lemmas eval_defs = logic_fields logic_mapped_nth logic_centered'_def logic_centered_nth
  logic_center_keeps logic_center_captures logic_mapped_pose_def logic_map_eq map_axis_def
  logic_filtered_pose_nth logic_filter_def logic_final_raw_nth inverts_def
  example_tracker_def Tracker_new_def example_axis_def linear_curve_def angle_quat_def
  array_of_def Pose0_def Yaw_def Pitch_def Roll_def d2r_def pi'_def Let_def
  setTrackingActive_def

section \<open>The claims\<close>

subsection \<open>Axis remap\<close>

text \<open>
  C1. The claim: the final output at axis \<open>i\<close> is 0 when \<^verbatim>\<open>mapping[i].src\<close> is outside
  [0,6), and otherwise the compensated, centered pose at index \<^verbatim>\<open>src\<close>. The loop of lines
  159 to 167 reads \<^verbatim>\<open>src\<close> into \<^verbatim>\<open>k\<close> and tests its range, but then copies
  \<^verbatim>\<open>centered_(i)\<close>, not \<^verbatim>\<open>centered_(k)\<close>. On the example tracker with the sample
  (1, 2, 3, 10, 20, 30) and \<^verbatim>\<open>src = 1\<close> on axis 0, the compensated, centered pose holds 2
  at index 1, and the output at axis 0 is 1.
\<close>

theorem remap_reads_own_axis:
  "src (opts (m (example_tracker
      \<lparr>m := (m example_tracker)(0 := example_axis False False 0 1)\<rparr>) 0)) = 1 \<and>
   logic_centered' angle_quat
     (example_tracker\<lparr>m := (m example_tracker)(0 := example_axis False False 0 1)\<rparr>) 1 = 2 \<and>
   output_pose (logic angle_quat
     (example_tracker\<lparr>m := (m example_tracker)(0 := example_axis False False 0 1)\<rparr>)) 0 = 1"
  by (simp add: eval_defs)

subsection \<open>Curve mapping\<close>

text \<open>
  C2. For every input value, invert flag and axis, \<^verbatim>\<open>map\<close> takes the alternate curve exactly
  when \<^verbatim>\<open>((pos < 0) == !invert) && altp\<close>, evaluates the curve it took at \<^verbatim>\<open>pos\<close> and adds
  the zero offset of the axis. With \<^verbatim>\<open>altp\<close> off the result is the value of the primary
  curve at \<^verbatim>\<open>pos\<close> plus the offset, for every \<^verbatim>\<open>pos\<close> and either value of the invert flag.
\<close>

theorem map_selects_curve:
  "fst (map_axis pos invertp axis) =
     getValue (if ((pos < 0) = (\<not> invertp)) \<and> altp (opts axis)
               then curveAlt axis else curve axis) pos
     + zero (opts axis) \<and>
   (\<not> altp (opts axis) \<longrightarrow>
     fst (map_axis pos invertp axis) = getValue (curve axis) pos + zero (opts axis))"
  by (simp add: map_axis_def Let_def setTrackingActive_def)

theorem map_selects_curve_witness:
  "\<not> altp (opts (example_axis False False 1 0)) \<and>
   fst (map_axis (- 2) False (example_axis False False 1 0)) = - 1 \<and>
   fst (map_axis (- 2) False (example_axis False True 1 0)) = - 3 \<and>
   fst (map_axis (- 2) True (example_axis True True 1 0)) = - 1"
  using map_selects_curve [of "- 2" False "example_axis False False 1 0"]
    map_selects_curve [of "- 2" False "example_axis False True 1 0"]
    map_selects_curve [of "- 2" True "example_axis True True 1 0"]
  by (simp add: example_axis_def linear_curve_def)

text \<open>
  C6. Every call of \<^verbatim>\<open>map\<close> writes the activation flag of both curves of the axis, whatever
  the flags were: the primary curve is active exactly when the alternate curve was not
  taken, the alternate curve exactly when it was. So after the call exactly one of the two
  is active, and after a pass this holds on each of the six axes.
\<close>

theorem map_toggles_both_curves:
  "tracking_active (curve (snd (map_axis pos invertp axis))) =
     (\<not> (((pos < 0) = (\<not> invertp)) \<and> altp (opts axis))) \<and>
   tracking_active (curveAlt (snd (map_axis pos invertp axis))) =
     (((pos < 0) = (\<not> invertp)) \<and> altp (opts axis)) \<and>
   tracking_active (curve (snd (map_axis pos invertp axis))) \<noteq>
     tracking_active (curveAlt (snd (map_axis pos invertp axis))) \<and>
   (\<forall>i<6. tracking_active (curve (m (logic Q st) i)) \<noteq>
           tracking_active (curveAlt (m (logic Q st) i)))"
  by (simp add: map_axis_active logic_fields logic_map_eq)

theorem map_toggles_both_curves_witness:
  "(0::nat) < 6 \<and>
   tracking_active (curve (m (logic angle_quat example_tracker) 0)) \<and>
   \<not> tracking_active (curveAlt (m (logic angle_quat example_tracker) 0)) \<and>
   \<not> tracking_active (curve (snd (map_axis (- 2) False (example_axis False True 1 0)))) \<and>
   tracking_active (curveAlt (snd (map_axis (- 2) False (example_axis False True 1 0))))"
  using map_toggles_both_curves
    [of "- 2" False "example_axis False True 1 0" angle_quat example_tracker]
  by (simp add: eval_defs)

subsection \<open>Translation compensation\<close>

text \<open>
  C4. For every matrix, input vector and flag, \<^verbatim>\<open>t_compensate\<close> rotates the input with its
  x and y negated and writes the result with its first two components negated again; the
  third component written is the rotated one when the flag is clear and the third
  component of the input itself when the flag is set. Nothing else of the output array is
  written.
\<close>

theorem t_compensate_components:
  "t_compensate rmat xyz output rz 0 =
     - dmat_mul rmat (array_of [- xyz 0, - xyz 1, xyz 2]) 0 \<and>
   t_compensate rmat xyz output rz 1 =
     - dmat_mul rmat (array_of [- xyz 0, - xyz 1, xyz 2]) 1 \<and>
   t_compensate rmat xyz output rz 2 =
     (if rz then xyz 2 else dmat_mul rmat (array_of [- xyz 0, - xyz 1, xyz 2]) 2) \<and>
   (\<forall>i. 3 \<le> i \<longrightarrow> t_compensate rmat xyz output rz i = output i)"
  by (simp add: t_compensate_def Let_def p_x_def p_y_def p_z_def)

theorem t_compensate_components_witness:
  "(3::nat) \<le> 4 \<and>
   t_compensate (dmat33_of (array_of [0, - 1, 0, 1, 0, 0, 0, 0, 2])) (array_of [1, 2, 3])
     (array_of [7, 7, 7, 7, 7, 7]) False 4 = 7 \<and>
   t_compensate (dmat33_of (array_of [0, - 1, 0, 1, 0, 0, 0, 0, 2])) (array_of [1, 2, 3])
     (array_of [7, 7, 7, 7, 7, 7]) False 0 = - 2 \<and>
   t_compensate (dmat33_of (array_of [0, - 1, 0, 1, 0, 0, 0, 0, 2])) (array_of [1, 2, 3])
     (array_of [7, 7, 7, 7, 7, 7]) False 1 = 1 \<and>
   t_compensate (dmat33_of (array_of [0, - 1, 0, 1, 0, 0, 0, 0, 2])) (array_of [1, 2, 3])
     (array_of [7, 7, 7, 7, 7, 7]) False 2 = 6 \<and>
   t_compensate (dmat33_of (array_of [0, - 1, 0, 1, 0, 0, 0, 0, 2])) (array_of [1, 2, 3])
     (array_of [7, 7, 7, 7, 7, 7]) True 2 = 3"
  using t_compensate_components [of "dmat33_of (array_of [0, - 1, 0, 1, 0, 0, 0, 0, 2])"
      "array_of [1, 2, 3]" "array_of [7, 7, 7, 7, 7, 7]" False]
    t_compensate_components [of "dmat33_of (array_of [0, - 1, 0, 1, 0, 0, 0, 0, 2])"
      "array_of [1, 2, 3]" "array_of [7, 7, 7, 7, 7, 7]" True]
  by (simp add: dmat33_of_def dmat_mul_def array_of_def)

text \<open>
  C8. With translation compensation on, the pose \<^verbatim>\<open>centered_\<close> differs from the centered
  pose at most in its three translation components, which hold what \<^verbatim>\<open>t_compensate\<close>
  wrote from the rotation matrix of the centered rotation, the centered pose and the
  \<^verbatim>\<open>tcomp_tz\<close> flag; the rotation components are those of the centered pose. With
  compensation off, \<^verbatim>\<open>centered_\<close> is the centered pose.
\<close>

theorem compensation_frame:
  "(tcomp_p (s st) \<longrightarrow>
      (\<forall>i. 3 \<le> i \<longrightarrow> logic_centered' Q st i = logic_centered Q st i) \<and>
      (\<forall>i<3. logic_centered' Q st i =
         t_compensate (euler_to_rmat (\<lambda>j. logic_centered Q st (Yaw + j)))
           (logic_centered Q st) (logic_centered Q st) (tcomp_tz (s st)) i)) \<and>
   (\<not> tcomp_p (s st) \<longrightarrow> logic_centered' Q st = logic_centered Q st)"
  by (simp add: logic_centered'_def Let_def t_compensate_def)

theorem compensation_frame_witness:
  "tcomp_p (s (example_tracker\<lparr>s := \<lparr>tcomp_p = True, tcomp_tz = True\<rparr>\<rparr>)) \<and>
   (3::nat) \<le> 4 \<and> (2::nat) < 3 \<and>
   logic_centered angle_quat
     (example_tracker\<lparr>s := \<lparr>tcomp_p = True, tcomp_tz = True\<rparr>\<rparr>) 4 = 20 \<and>
   logic_centered' angle_quat
     (example_tracker\<lparr>s := \<lparr>tcomp_p = True, tcomp_tz = True\<rparr>\<rparr>) 4 = 20 \<and>
   logic_centered' angle_quat
     (example_tracker\<lparr>s := \<lparr>tcomp_p = True, tcomp_tz = True\<rparr>\<rparr>) 2 = 3 \<and>
   \<not> tcomp_p (s example_tracker) \<and>
   logic_centered' angle_quat example_tracker = logic_centered angle_quat example_tracker"
  using compensation_frame
      [of "example_tracker\<lparr>s := \<lparr>tcomp_p = True, tcomp_tz = True\<rparr>\<rparr>" angle_quat]
    compensation_frame [of example_tracker angle_quat]
  by (simp add: eval_defs t_compensate_def)

subsection \<open>Centering\<close>

text \<open>
  C3. In a pass that finds \<^verbatim>\<open>centerp\<close> set, the flag is cleared, \<^verbatim>\<open>t_b[0..2]\<close> receive the
  first three components of the filtered pose after inversion and before the curves, and
  \<^verbatim>\<open>q_b\<close> receives the quaternion of the mapped yaw, pitch and roll, each times
  \<^verbatim>\<open>d2r\<close>. A pass that finds the flag clear leaves it clear and leaves \<^verbatim>\<open>t_b\<close> and \<^verbatim>\<open>q_b\<close> as
  they were, and so does any number of loop iterations that start with the flag clear,
  whatever the device delivers.
\<close>

theorem centering_one_shot:
  "(centerp st \<longrightarrow>
      \<not> centerp (logic Q st) \<and>
      (\<forall>i<3. t_b (logic Q st) i = logic_filtered_pose st i \<and>
              logic_filtered_pose st i =
                fst (logic_filter st) i * (if invert (opts (m st i)) then -1 else 1)) \<and>
      q_b (logic Q st) =
        from_euler_rads Q (logic_mapped_pose st Yaw * d2r)
                          (logic_mapped_pose st Pitch * d2r)
                          (logic_mapped_pose st Roll * d2r)) \<and>
   (\<not> centerp st \<longrightarrow>
      \<not> centerp (logic Q st) \<and> t_b (logic Q st) = t_b st \<and> q_b (logic Q st) = q_b st) \<and>
   (\<not> centerp st \<longrightarrow>
      \<not> centerp (loop_passes Q st xs) \<and>
      t_b (loop_passes Q st xs) = t_b st \<and> q_b (loop_passes Q st xs) = q_b st)"
  using loop_passes_center_idle [of st Q xs]
  by (simp add: logic_fields logic_center_keeps logic_center_captures
      logic_filtered_pose_nth inverts_def)

theorem centering_one_shot_witness:
  "centerp (example_tracker\<lparr>centerp := True\<rparr>) \<and> (0::nat) < 3 \<and>
   \<not> centerp (logic angle_quat (example_tracker\<lparr>centerp := True\<rparr>)) \<and>
   t_b (logic angle_quat (example_tracker\<lparr>centerp := True\<rparr>)) 0 = 1 \<and>
   q_b (logic angle_quat (example_tracker\<lparr>centerp := True\<rparr>)) =
     (10 * d2r, 20 * d2r, 30 * d2r) \<and>
   \<not> centerp example_tracker \<and>
   t_b (logic angle_quat example_tracker) = t_b example_tracker \<and>
   q_b (logic angle_quat example_tracker) = (0, 0, 0) \<and>
   q_b (loop_passes angle_quat example_tracker [(\<lambda>np. array_of [4, 5, 6, 7, 8, 9], 0)]) =
     (0, 0, 0)"
  using centering_one_shot [of "example_tracker\<lparr>centerp := True\<rparr>" angle_quat "[]"]
    centering_one_shot
      [of example_tracker angle_quat "[(\<lambda>np. array_of [4, 5, 6, 7, 8, 9], 0)]"]
  by (simp add: eval_defs)

subsection \<open>Acquisition of the raw pose\<close>

text \<open>
  C7. With \<^verbatim>\<open>enabledp\<close> clear, a pass leaves the raw-pose buffer \<^verbatim>\<open>final_raw\<close> as it was;
  with \<^verbatim>\<open>enabledp\<close> set, each of its six components is the component of \<^verbatim>\<open>newpose\<close> at the
  same index.
\<close>

theorem acquire_raw_frame:
  "(\<not> enabledp st \<longrightarrow> final_raw (logic Q st) = final_raw st) \<and>
   (enabledp st \<longrightarrow> (\<forall>i<6. final_raw (logic Q st) i = newpose st i))"
  by (simp add: logic_fields logic_final_raw_nth fun_eq_iff)

theorem acquire_raw_frame_witness:
  "enabledp example_tracker \<and> (3::nat) < 6 \<and>
   final_raw example_tracker 3 = 0 \<and>
   final_raw (logic angle_quat example_tracker) 3 = 10 \<and>
   \<not> enabledp (example_tracker\<lparr>enabledp := False\<rparr>) \<and>
   final_raw (logic angle_quat (example_tracker\<lparr>enabledp := False\<rparr>)) 3 = 0"
  using acquire_raw_frame [of example_tracker angle_quat]
    acquire_raw_frame [of "example_tracker\<lparr>enabledp := False\<rparr>" angle_quat]
  by (simp add: example_tracker_def Tracker_new_def array_of_def Pose0_def)

subsection \<open>The worker loop\<close>

text \<open>
  C9. An iteration of the loop runs one pass and then calls \<^verbatim>\<open>usleep\<close> once, with
  \<^verbatim>\<open>std::max(1L, sleep_ms * 1000L - t.elapsed()/1000L)\<close>. For every value of
  \<^verbatim>\<open>t.elapsed()\<close> the subtraction does not overflow, so the argument is the larger of 1
  and 3000 minus the truncated quotient, and it is at least 1.
\<close>

theorem sleep_at_least_one_microsecond:
  "slept (iteration Q st data elapsed) = slept st @ [usleep_arg elapsed] \<and>
   sint (usleep_arg elapsed) = max 1 (3000 - sint elapsed sdiv 1000) \<and>
   1 \<le> sint (usleep_arg elapsed)"
  by (simp add: iteration_def Let_def logic_fields sint_usleep_arg)

theorem sleep_at_least_one_microsecond_witness:
  "usleep_arg 1000000 = 2000 \<and> usleep_arg 5000000 = 1 \<and>
   slept (iteration angle_quat example_tracker (\<lambda>np. np) 5000000) = [1]"
  using sleep_at_least_one_microsecond [of angle_quat example_tracker "\<lambda>np. np" 5000000]
    sleep_at_least_one_microsecond [of angle_quat example_tracker "\<lambda>np. np" 1000000]
  by (simp add: usleep_arg_def Let_def long_max_def sleep_ms_def long_div_def
      example_tracker_def Tracker_new_def)

text \<open>
  C5. When the loop test finds \<^verbatim>\<open>should_quit\<close> set, after any number of iterations, \<^verbatim>\<open>run\<close>
  returns, and what it does from there is the shutdown: the six components of \<^verbatim>\<open>newpose\<close>
  are zeroed, one pass runs and sends its pose, and then the all-zero pose is sent to the
  protocol directly. The protocol therefore receives exactly two more poses, and the last
  one is all zero.
\<close>

theorem shutdown_sequence:
  "run Q st (map (\<lambda>(data, elapsed). Sample data elapsed) xs @ Quit # rest) =
     Some (run_shutdown Q (loop_passes Q st xs)) \<and>
   pProtocol (run_shutdown Q st') =
     pProtocol st' @
       [output_pose (logic Q (st'\<lparr>newpose := (\<lambda>i. if i < 6 then 0 else newpose st' i)\<rparr>)),
        Pose0] \<and>
   last (pProtocol (run_shutdown Q st')) = Pose0 \<and>
   (\<forall>i. Pose0 i = 0)"
  by (simp add: run_reaches_shutdown run_shutdown_fields logic_fields Pose0_def)

theorem shutdown_sequence_witness:
  "map_option (\<lambda>st. length (pProtocol st))
     (run angle_quat example_tracker [Sample (\<lambda>np. np) 1000000, Quit]) = Some 3 \<and>
   map_option (\<lambda>st. (pProtocol st ! 0) 0)
     (run angle_quat example_tracker [Sample (\<lambda>np. np) 1000000, Quit]) = Some 1 \<and>
   map_option (\<lambda>st. (pProtocol st ! 1) 0)
     (run angle_quat example_tracker [Sample (\<lambda>np. np) 1000000, Quit]) = Some 0 \<and>
   map_option (\<lambda>st. last (pProtocol st))
     (run angle_quat example_tracker [Sample (\<lambda>np. np) 1000000, Quit]) = Some Pose0"
  using shutdown_sequence [of angle_quat example_tracker "[(\<lambda>np. np, 1000000)]" "[]"
      "loop_passes angle_quat example_tracker [(\<lambda>np. np, 1000000)]"]
  by (simp add: loop_passes_def iteration_def eval_defs)

text \<open>
  C10. When the shutdown starts with \<^verbatim>\<open>enabledp\<close> clear, \<^verbatim>\<open>newpose\<close> is zeroed but the pass
  does not copy it: \<^verbatim>\<open>final_raw\<close> keeps the raw pose acquired before, and the pose the pass
  sends is the one computed from that raw pose, as if \<^verbatim>\<open>newpose\<close> had not been touched.
  The all-zero pose is the one sent directly afterwards.
\<close>

theorem shutdown_pass_when_disabled:
  "\<not> enabledp st \<Longrightarrow>
     (\<forall>i<6. newpose (run_shutdown Q st) i = 0) \<and>
     final_raw (run_shutdown Q st) = final_raw st \<and>
     raw_6dof (run_shutdown Q st) = final_raw st \<and>
     pProtocol (run_shutdown Q st) = pProtocol st @ [logic_mapped Q st, Pose0]"
  by (simp add: run_shutdown_fields disabled_newpose_irrelevant)

theorem shutdown_pass_when_disabled_witness:
  "\<not> enabledp ((logic angle_quat example_tracker)\<lparr>enabledp := False\<rparr>) \<and> (0::nat) < 6 \<and>
   newpose (run_shutdown angle_quat
     ((logic angle_quat example_tracker)\<lparr>enabledp := False\<rparr>)) 0 = 0 \<and>
   final_raw (run_shutdown angle_quat
     ((logic angle_quat example_tracker)\<lparr>enabledp := False\<rparr>)) 0 = 1 \<and>
   length (pProtocol (run_shutdown angle_quat
     ((logic angle_quat example_tracker)\<lparr>enabledp := False\<rparr>))) = 3 \<and>
   (pProtocol (run_shutdown angle_quat
     ((logic angle_quat example_tracker)\<lparr>enabledp := False\<rparr>)) ! 1) 0 = 1 \<and>
   pProtocol (run_shutdown angle_quat
     ((logic angle_quat example_tracker)\<lparr>enabledp := False\<rparr>)) ! 2 = Pose0"
  using shutdown_pass_when_disabled
    [of "(logic angle_quat example_tracker)\<lparr>enabledp := False\<rparr>" angle_quat]
  by (simp add: eval_defs)

end
